theory Spec2Isabelle
  imports Complex_Main
begin

section \<open>The adaptive render-scale controller of Renderer.ts\<close>

text \<open>
  The development follows \<^verbatim>\<open>packages/model-viewer/src/three-components/Renderer.ts\<close>.
  A JavaScript number is taken as a real number, a whole-numbered one (a step index, the
  backing-store size of a canvas) as an integer. The class \<^verbatim>\<open>Renderer\<close> is a record
  of the fields that the frame timer, the estimator, the selector and the resizer read or
  write; every method takes the record and returns it updated.
\<close>

subsection \<open>Constants\<close>

definition DURATION_DECAY :: real where
  "DURATION_DECAY = 0.2"

definition LOW_FRAME_DURATION_MS :: real where
  "LOW_FRAME_DURATION_MS = 18"

definition HIGH_FRAME_DURATION_MS :: real where
  "HIGH_FRAME_DURATION_MS = 26"

definition MAX_AVG_CHANGE_MS :: real where
  "MAX_AVG_CHANGE_MS = 2"

definition SCALE_STEPS :: "real list" where
  "SCALE_STEPS = [1, 0.79, 0.62, 0.5, 0.4, 0.31, 0.25]"

definition DEFAULT_LAST_STEP :: int where
  "DEFAULT_LAST_STEP = 3"

subsection \<open>Data\<close>

text \<open>
  Of a canvas element the code touches \<^verbatim>\<open>width\<close>, \<^verbatim>\<open>height\<close> (the backing store, whole
  pixels) and \<^verbatim>\<open>style.width\<close>, \<^verbatim>\<open>style.height\<close>. A style length is always written as
  the template string \<^verbatim>\<open>`${x}px`\<close>; it is kept as the number \<open>x\<close>, with \<open>None\<close> for the
  not-a-number that a division by an undefined scale factor yields.
\<close>

record HTMLCanvasElement =
  canvas_width :: int
  canvas_height :: int
  style_width :: "real option"
  style_height :: "real option"

text \<open>
  A scene has its logical size and the canvas it is shown on. What the draw loop keeps for
  a scene (\<^verbatim>\<open>isDirty\<close>, which the resizer and the selector set as well,
  \<^verbatim>\<open>renderCount\<close>, the 2D context) is left out: the controller never reads it.
\<close>

record ModelScene =
  scene_width :: real
  scene_height :: real
  canvas :: HTMLCanvasElement

text \<open>The handle of the wrapped WebGL renderer; \<^verbatim>\<open>threeRenderer\<close> is null when absent.\<close>

datatype WebGLRenderer = WebGLRenderer

text \<open>
  The fields of \<^verbatim>\<open>Renderer\<close>. The set of scenes is iterated in insertion order, so it is
  a list. The AR renderer is a collaborator outside this file; its state is the type
  parameter.
\<close>

record 'ar Renderer =
  threeRenderer :: "WebGLRenderer option"
  canvas3D :: HTMLCanvasElement
  arRenderer :: 'ar
  width :: real
  height :: real
  dpr :: real
  scenes :: "ModelScene list"
  lastTick :: real
  scaleStep :: int
  lastStep :: int
  avgFrameDuration :: real

text \<open>
  What the methods call outside this file, taken as parameters: \<^verbatim>\<open>resolveDpr()\<close> of
  utilities.js (the device pixel ratio at the time of the call), the element's
  \<^verbatim>\<open>[$updateSize]\<close> applied to its measured rectangle (its effect on the scene), and of
  the AR renderer \<^verbatim>\<open>onWebXRFrame\<close> and \<^verbatim>\<open>isPresenting\<close>, which act on the AR renderer's
  own state.
\<close>

record ('ar, 'frame) host =
  resolveDpr :: real
  updateSize :: "ModelScene \<Rightarrow> ModelScene"
  onWebXRFrame :: "'ar \<Rightarrow> real \<Rightarrow> 'frame \<Rightarrow> 'ar"
  isPresenting :: "'ar \<Rightarrow> bool"

subsection \<open>Helpers from outside the file\<close>

text \<open>
  Modelled from the spec: \<^verbatim>\<open>clamp\<close> is imported from utilities.js, which is not among
  the sources. The spec writes \<^verbatim>\<open>clamped = clamp(raw, -MAX_CHANGE, MAX_CHANGE)\<close> and says
  that clamping bounds the adjustment of one tick: the value is held between the lower
  and the upper limit.
\<close>

definition clamp :: "real \<Rightarrow> real \<Rightarrow> real \<Rightarrow> real" where
  "clamp v lowerLimit upperLimit = max lowerLimit (min upperLimit v)"

text \<open>
  Modelled from the spec: \<^verbatim>\<open>WebGLRenderer.setSize\<close> belongs to the wrapped scene-graph
  library, which is not among the sources. The renderer's pixel ratio is 1 and the call
  passes \<^verbatim>\<open>updateStyle = false\<close>; by the spec the backing store of the shared canvas is
  sized to the given width and height, rounded to whole pixels, and the style is left.
\<close>

definition setSize :: "HTMLCanvasElement \<Rightarrow> real \<Rightarrow> real \<Rightarrow> HTMLCanvasElement" where
  "setSize c w h = c\<lparr>canvas_width := round w, canvas_height := round h\<rparr>"

text \<open>
  \<^verbatim>\<open>x / scale\<close> where \<open>scale\<close> was read from the table: an index outside the table reads
  \<^verbatim>\<open>undefined\<close>, and the quotient is then not a number.
\<close>

definition divide_by :: "real \<Rightarrow> real option \<Rightarrow> real option" where
  "divide_by x scale = (case scale of None \<Rightarrow> None | Some c \<Rightarrow> Some (x / c))"

subsection \<open>Getters and the setter of the minimum scale\<close>

definition canRender :: "'ar Renderer \<Rightarrow> bool" where
  "canRender s = (threeRenderer s \<noteq> None)"

definition scaleFactor :: "'ar Renderer \<Rightarrow> real option" where
  "scaleFactor s =
     (if 0 \<le> scaleStep s \<and> scaleStep s < int (length SCALE_STEPS)
      then Some (SCALE_STEPS ! nat (scaleStep s)) else None)"

text \<open>The loop of \<^verbatim>\<open>set minScale\<close>, from the current index \<open>i\<close>; the result is the final \<open>i\<close>.\<close>

function minScale_loop :: "real \<Rightarrow> nat \<Rightarrow> nat" where
  "minScale_loop scale i =
     (if i < length SCALE_STEPS
      then (if SCALE_STEPS ! i < scale then i else minScale_loop scale (i + 1))
      else i)"
  by pat_completeness auto
termination
  by (relation "measure (\<lambda>(scale, i). length SCALE_STEPS - i)") auto

declare minScale_loop.simps [simp del]

definition minScale :: "'ar Renderer \<Rightarrow> real \<Rightarrow> 'ar Renderer" where
  "minScale s scale = s\<lparr>lastStep := int (minScale_loop scale 1) - 1\<rparr>"

subsection \<open>The resizer\<close>

definition updateRendererSize :: "('ar, 'frame) host \<Rightarrow> 'ar Renderer \<Rightarrow> 'ar Renderer" where
  "updateRendererSize h s =
     (let dpr' = resolveDpr h;
          s1 = (if dpr' \<noteq> dpr s then s\<lparr>scenes := map (updateSize h) (scenes s)\<rparr> else s);
          width' = foldl (\<lambda>w scene. max w (scene_width scene)) 0 (scenes s1);
          height' = foldl (\<lambda>h scene. max h (scene_height scene)) 0 (scenes s1)
      in if width' = width s1 \<and> height' = height s1 \<and> dpr' = dpr s1 then s1
         else
           let s2 = s1\<lparr>width := width', height := height', dpr := dpr'\<rparr>;
               s3 = (if canRender s2
                     then s2\<lparr>canvas3D := setSize (canvas3D s2) (width' * dpr') (height' * dpr')\<rparr>
                     else s2);
               scale = scaleFactor s3;
               widthCSS = divide_by width' scale;
               heightCSS = divide_by height' scale;
               s4 = s3\<lparr>canvas3D := (canvas3D s3)\<lparr>style_width := widthCSS,
                                                    style_height := heightCSS\<rparr>\<rparr>
           in s4\<lparr>scenes :=
                  map (\<lambda>scene. scene\<lparr>canvas := (canvas scene)
                         \<lparr>canvas_width := round (width' * dpr'),
                          canvas_height := round (height' * dpr'),
                          style_width := widthCSS,
                          style_height := heightCSS\<rparr>\<rparr>)
                      (scenes s4)\<rparr>)"

subsection \<open>The scale-step selector\<close>

definition updateRendererScale :: "'ar Renderer \<Rightarrow> 'ar Renderer" where
  "updateRendererScale s =
     (let scaleStep0 = scaleStep s;
          s1 = (if avgFrameDuration s > HIGH_FRAME_DURATION_MS \<and> scaleStep s < lastStep s
                then s\<lparr>scaleStep := scaleStep s + 1\<rparr>
                else if avgFrameDuration s < LOW_FRAME_DURATION_MS \<and> scaleStep s > 0
                then s\<lparr>scaleStep := scaleStep s - 1\<rparr>
                else s)
      in if scaleStep0 = scaleStep s1 then s1
         else
           let scale = scaleFactor s1;
               s2 = s1\<lparr>avgFrameDuration :=
                         (HIGH_FRAME_DURATION_MS + LOW_FRAME_DURATION_MS) / 2\<rparr>;
               width' = divide_by (width s2) scale;
               height' = divide_by (height s2) scale;
               s3 = s2\<lparr>canvas3D := (canvas3D s2)\<lparr>style_width := width',
                                                    style_height := height'\<rparr>\<rparr>
           in s3\<lparr>scenes :=
                  map (\<lambda>scene. scene\<lparr>canvas := (canvas scene)
                         \<lparr>style_width := width', style_height := height'\<rparr>\<rparr>)
                      (scenes s3)\<rparr>)"

subsection \<open>Construction and the render tick\<close>

text \<open>
  The constructor, as far as the controller goes: the field initialisers, the pixel ratio,
  the canvas that \<^verbatim>\<open>document.createElement\<close> returned, the WebGL renderer (null when
  its creation threw), the first call of the resizer, and the two last assignments.
  \<^verbatim>\<open>lastTick\<close> has no initialiser and is not read before it is assigned. The two
  calls of \<^verbatim>\<open>resolveDpr\<close>, here and in the resizer, get the same answer.
\<close>

definition constructor ::
  "('ar, 'frame) host \<Rightarrow> HTMLCanvasElement \<Rightarrow> WebGLRenderer option \<Rightarrow> 'ar \<Rightarrow> real \<Rightarrow> 'ar Renderer"
where
  "constructor h element gl ar now =
     (let s0 = \<lparr>threeRenderer = gl, canvas3D = element, arRenderer = ar,
                width = 0, height = 0, dpr = resolveDpr h, scenes = [],
                lastTick = now, scaleStep = 0, lastStep = DEFAULT_LAST_STEP,
                avgFrameDuration = (HIGH_FRAME_DURATION_MS + LOW_FRAME_DURATION_MS) / 2\<rparr>;
          s1 = updateRendererSize h s0
      in s1\<lparr>lastTick := now, avgFrameDuration := 0\<rparr>)"

text \<open>
  One call of \<^verbatim>\<open>render(t, frame)\<close>, up to and including the selector. What follows in
  the source draws the scenes: it reads \<^verbatim>\<open>dpr\<close> and \<^verbatim>\<open>scaleFactor\<close> and writes none of
  the fields kept here. \<^verbatim>\<open>selectCanvas\<close> writes none of them either.
\<close>

definition render ::
  "('ar, 'frame) host \<Rightarrow> 'ar Renderer \<Rightarrow> real \<Rightarrow> 'frame option \<Rightarrow> 'ar Renderer"
where
  "render h s t frame =
     (case frame of
        Some f \<Rightarrow> s\<lparr>arRenderer := onWebXRFrame h (arRenderer s) t f\<rparr>
      | None \<Rightarrow>
          let delta = t - lastTick s;
              s1 = s\<lparr>lastTick := t\<rparr>
          in if \<not> canRender s1 \<or> isPresenting h (arRenderer s1) then s1
             else
               let s2 = s1\<lparr>avgFrameDuration := avgFrameDuration s1 +
                           clamp (DURATION_DECAY * (delta - avgFrameDuration s1))
                                 (- MAX_AVG_CHANGE_MS) MAX_AVG_CHANGE_MS\<rparr>;
                   s3 = updateRendererSize h s2
               in updateRendererScale s3)"

text \<open>A run of render ticks: each one with the host's answers at that time, the time stamp
  and the XR frame, if any.\<close>

fun run ::
  "'ar Renderer \<Rightarrow> (('ar, 'frame) host \<times> real \<times> 'frame option) list \<Rightarrow> 'ar Renderer"
where
  "run s [] = s"
| "run s ((h, t, frame) # ticks) = run (render h s t frame) ticks"

subsection \<open>The specification's wording and the observed frame durations\<close>

text \<open>
  The estimator and the selector as the specification words them (sections 4.2 and 4.3),
  with its constants written out: the new smoothed duration from the old one and the frame
  duration, and the new step from the smoothed duration, the old step and the last step.
  They are compared with the code below.
\<close>

definition spec_estimator :: "real \<Rightarrow> real \<Rightarrow> real" where
  "spec_estimator avg delta = avg + clamp (0.2 * (delta - avg)) (- 2) 2"

definition spec_selector :: "real \<Rightarrow> int \<Rightarrow> int \<Rightarrow> int" where
  "spec_selector avg step ceiling_step =
     (if avg > 26 \<and> step < ceiling_step then step + 1
      else if avg < 18 \<and> step > 0 then step - 1
      else step)"

text \<open>
  The frame durations that a run feeds to the estimator: \<^verbatim>\<open>delta\<close> of every tick that
  gets past both early returns of \<^verbatim>\<open>render\<close>.
\<close>

fun deltas ::
  "'ar Renderer \<Rightarrow> (('ar, 'frame) host \<times> real \<times> 'frame option) list \<Rightarrow> real list"
where
  "deltas s [] = []"
| "deltas s ((h, t, frame) # ticks) =
     (if frame = None \<and> canRender s \<and> \<not> isPresenting h (arRenderer s)
      then [t - lastTick s] else []) @ deltas (render h s t frame) ticks"

subsection \<open>A sample configuration\<close>

text \<open>
  A page at device pixel ratio 2 whose elements keep their size and which never enters AR,
  a canvas of the default size, and the renderer constructed there at time 0.
\<close>

definition sample_canvas :: HTMLCanvasElement where
  "sample_canvas = \<lparr>canvas_width = 300, canvas_height = 150,
                     style_width = Some 300, style_height = Some 150\<rparr>"

definition sample_scene :: "real \<Rightarrow> real \<Rightarrow> ModelScene" where
  "sample_scene w h = \<lparr>scene_width = w, scene_height = h, canvas = sample_canvas\<rparr>"

definition sample_host :: "(unit, unit) host" where
  "sample_host = \<lparr>resolveDpr = 2, updateSize = (\<lambda>scene. scene),
                   onWebXRFrame = (\<lambda>ar t frame. ar), isPresenting = (\<lambda>ar. False)\<rparr>"

definition sample_renderer :: "unit Renderer" where
  "sample_renderer = constructor sample_host sample_canvas (Some WebGLRenderer) () 0"

section \<open>Properties\<close>

subsection \<open>What the resizer and the selector leave alone\<close>

lemma updateRendererSize_ctrl [simp]:
  "lastTick (updateRendererSize h s) = lastTick s"
  "scaleStep (updateRendererSize h s) = scaleStep s"
  "lastStep (updateRendererSize h s) = lastStep s"
  "avgFrameDuration (updateRendererSize h s) = avgFrameDuration s"
  "threeRenderer (updateRendererSize h s) = threeRenderer s"
  "arRenderer (updateRendererSize h s) = arRenderer s"
  by (simp_all add: updateRendererSize_def Let_def canRender_def)

lemma updateRendererScale_ctrl [simp]:
  "lastTick (updateRendererScale s) = lastTick s"
  "lastStep (updateRendererScale s) = lastStep s"
  "threeRenderer (updateRendererScale s) = threeRenderer s"
  "arRenderer (updateRendererScale s) = arRenderer s"
  "width (updateRendererScale s) = width s"
  "height (updateRendererScale s) = height s"
  "dpr (updateRendererScale s) = dpr s"
  by (simp_all add: updateRendererScale_def Let_def)

subsection \<open>The selector and the estimator against the specification's wording\<close>

lemma updateRendererScale_scaleStep:
  "scaleStep (updateRendererScale s) =
     spec_selector (avgFrameDuration s) (scaleStep s) (lastStep s)"
  by (simp add: updateRendererScale_def Let_def spec_selector_def
      HIGH_FRAME_DURATION_MS_def LOW_FRAME_DURATION_MS_def)

lemma updateRendererScale_avg:
  "avgFrameDuration (updateRendererScale s) =
     (if scaleStep (updateRendererScale s) = scaleStep s then avgFrameDuration s else 22)"
  by (simp add: updateRendererScale_def Let_def
      HIGH_FRAME_DURATION_MS_def LOW_FRAME_DURATION_MS_def)

lemma spec_estimator_bound: "\<bar>spec_estimator avg delta - avg\<bar> \<le> 2"
  by (simp add: spec_estimator_def clamp_def)

lemma spec_estimator_between:
  "min avg delta \<le> spec_estimator avg delta \<and> spec_estimator avg delta \<le> max avg delta"
  by (auto simp add: spec_estimator_def clamp_def min_def max_def field_simps)

lemma spec_selector_bound: "\<bar>spec_selector avg step c - step\<bar> \<le> 1"
  by (simp add: spec_selector_def)

lemma spec_selector_midpoint: "spec_selector (spec_estimator 22 delta) step c = step"
proof -
  have "\<bar>spec_estimator 22 delta - 22\<bar> \<le> 2" by (rule spec_estimator_bound)
  then have "\<not> spec_estimator 22 delta > 26" and "\<not> spec_estimator 22 delta < 18"
    by simp_all
  then show ?thesis by (simp add: spec_selector_def)
qed

subsection \<open>The three ways through a render tick\<close>

lemma render_xr:
  "render h s t (Some f) = s\<lparr>arRenderer := onWebXRFrame h (arRenderer s) t f\<rparr>"
  by (simp add: render_def)

lemma render_idle:
  "\<not> canRender s \<or> isPresenting h (arRenderer s) \<Longrightarrow>
   render h s t None = s\<lparr>lastTick := t\<rparr>"
  by (auto simp add: render_def Let_def canRender_def)

lemma render_tick:
  assumes "canRender s" and "\<not> isPresenting h (arRenderer s)"
  shows "render h s t None =
     updateRendererScale (updateRendererSize h
       (s\<lparr>lastTick := t,
          avgFrameDuration := spec_estimator (avgFrameDuration s) (t - lastTick s)\<rparr>))"
  using assms
  by (auto simp add: render_def Let_def canRender_def spec_estimator_def
      DURATION_DECAY_def MAX_AVG_CHANGE_MS_def)

lemma render_tick_scaleStep:
  assumes "canRender s" and "\<not> isPresenting h (arRenderer s)"
  shows "scaleStep (render h s t None) =
     spec_selector (spec_estimator (avgFrameDuration s) (t - lastTick s))
       (scaleStep s) (lastStep s)"
  using assms by (simp add: render_tick updateRendererScale_scaleStep)

lemma render_tick_avg:
  assumes "canRender s" and "\<not> isPresenting h (arRenderer s)"
  shows "avgFrameDuration (render h s t None) =
     (if scaleStep (render h s t None) = scaleStep s
      then spec_estimator (avgFrameDuration s) (t - lastTick s) else 22)"
  using assms by (simp add: render_tick updateRendererScale_avg)

lemma render_lastStep [simp]: "lastStep (render h s t frame) = lastStep s"
  by (cases frame) (auto simp add: render_def Let_def)

lemma render_threeRenderer [simp]: "threeRenderer (render h s t frame) = threeRenderer s"
  by (cases frame) (auto simp add: render_def Let_def)

lemma render_canRender [simp]: "canRender (render h s t frame) = canRender s"
  by (simp add: canRender_def)

lemma render_arRenderer_None [simp]: "arRenderer (render h s t None) = arRenderer s"
  by (auto simp add: render_def Let_def)

lemma render_lastTick_None [simp]: "lastTick (render h s t None) = t"
  by (auto simp add: render_def Let_def)

lemma render_scaleStep_cases:
  "scaleStep (render h s t frame) = scaleStep s \<or>
   (canRender s \<and> frame = None \<and> \<not> isPresenting h (arRenderer s) \<and>
    scaleStep (render h s t frame) =
      spec_selector (spec_estimator (avgFrameDuration s) (t - lastTick s))
       (scaleStep s) (lastStep s))"
proof (cases frame)
  case (Some f)
  then show ?thesis by (simp add: render_xr)
next
  case None
  show ?thesis
  proof (cases "canRender s \<and> \<not> isPresenting h (arRenderer s)")
    case True
    with None show ?thesis by (simp add: render_tick_scaleStep)
  next
    case False
    with None show ?thesis by (auto simp add: render_idle)
  qed
qed

subsection \<open>The constructed renderer and the sample configuration\<close>

lemma constructor_fields:
  "avgFrameDuration (constructor h c gl ar now) = 0"
  "scaleStep (constructor h c gl ar now) = 0"
  "lastTick (constructor h c gl ar now) = now"
  "lastStep (constructor h c gl ar now) = 3"
  by (simp_all add: constructor_def Let_def DEFAULT_LAST_STEP_def)

lemma constructor_canRender: "canRender (constructor h c gl ar now) = (gl \<noteq> None)"
  by (simp add: constructor_def Let_def canRender_def)

lemma sample_host_fields:
  "resolveDpr sample_host = 2" "\<not> isPresenting sample_host ar"
  "onWebXRFrame sample_host ar t f = ar" "updateSize sample_host scene = scene"
  by (simp_all add: sample_host_def)

lemma sample_renderer_fields:
  "canRender sample_renderer"
  "avgFrameDuration sample_renderer = 0" "scaleStep sample_renderer = 0"
  "lastTick sample_renderer = 0" "lastStep sample_renderer = 3"
  by (simp_all add: sample_renderer_def constructor_fields constructor_canRender)

section \<open>The claims\<close>

subsection \<open>The scale-step selector\<close>

text \<open>
  C1: one evaluation of the selector increments \<^verbatim>\<open>scaleStep\<close> when the smoothed duration
  is strictly above 26 ms and the step is below \<^verbatim>\<open>lastStep\<close>; otherwise it decrements it
  when the smoothed duration is strictly below 18 ms and the step is above 0; otherwise it
  leaves it. The step moves by at most one, in the selector and so in every render tick.
\<close>

theorem selector_one_step:
  "scaleStep (updateRendererScale s) =
     (if avgFrameDuration s > 26 \<and> scaleStep s < lastStep s then scaleStep s + 1
      else if avgFrameDuration s < 18 \<and> scaleStep s > 0 then scaleStep s - 1
      else scaleStep s)
   \<and> \<bar>scaleStep (updateRendererScale s) - scaleStep s\<bar> \<le> 1
   \<and> \<bar>scaleStep (render h s t frame) - scaleStep s\<bar> \<le> 1"
proof -
  have a: "scaleStep (updateRendererScale s) =
     (if avgFrameDuration s > 26 \<and> scaleStep s < lastStep s then scaleStep s + 1
      else if avgFrameDuration s < 18 \<and> scaleStep s > 0 then scaleStep s - 1
      else scaleStep s)"
    by (simp add: updateRendererScale_scaleStep spec_selector_def)
  have b: "\<bar>scaleStep (updateRendererScale s) - scaleStep s\<bar> \<le> 1"
    by (simp add: updateRendererScale_scaleStep spec_selector_bound)
  have c: "\<bar>scaleStep (render h s t frame) - scaleStep s\<bar> \<le> 1"
    using render_scaleStep_cases [of h s t frame] spec_selector_bound by auto
  from a b c show ?thesis by blast
qed

text \<open>With a smoothed duration of 30 ms the sample renderer goes from step 0 to step 1.\<close>

theorem selector_one_step_witness:
  "scaleStep (updateRendererScale (sample_renderer\<lparr>avgFrameDuration := 30\<rparr>)) = 1
   \<and> \<bar>scaleStep (render sample_host (sample_renderer\<lparr>avgFrameDuration := 30\<rparr>) 16 None)
        - 0\<bar> \<le> 1"
  using selector_one_step [of "sample_renderer\<lparr>avgFrameDuration := 30\<rparr>" sample_host 16 None]
  by (simp add: sample_renderer_fields)

subsection \<open>The smoothed-duration estimator\<close>

text \<open>
  C2: a render tick without XR frame, with a renderer and outside AR presentation, hands
  to the resizer and the selector the smoothed duration
  \<open>avg + clamp (0.2 * (delta - avg)) (- 2) 2\<close> with \<open>delta = t - lastTick\<close>; this value
  differs from the previous one by at most 2, and it is the smoothed duration after the
  tick unless the selector changed the step.
\<close>

theorem estimator_update:
  assumes "canRender s" and "\<not> isPresenting h (arRenderer s)"
  shows "render h s t None =
           updateRendererScale (updateRendererSize h
             (s\<lparr>lastTick := t,
                avgFrameDuration := avgFrameDuration s +
                  clamp (0.2 * ((t - lastTick s) - avgFrameDuration s)) (- 2) 2\<rparr>))
         \<and> \<bar>(avgFrameDuration s +
               clamp (0.2 * ((t - lastTick s) - avgFrameDuration s)) (- 2) 2)
             - avgFrameDuration s\<bar> \<le> 2
         \<and> (scaleStep (render h s t None) = scaleStep s \<longrightarrow>
              avgFrameDuration (render h s t None) = avgFrameDuration s +
                  clamp (0.2 * ((t - lastTick s) - avgFrameDuration s)) (- 2) 2)"
proof -
  have a: "render h s t None =
           updateRendererScale (updateRendererSize h
             (s\<lparr>lastTick := t,
                avgFrameDuration := avgFrameDuration s +
                  clamp (0.2 * ((t - lastTick s) - avgFrameDuration s)) (- 2) 2\<rparr>))"
    using assms render_tick [of s h t] by (simp add: spec_estimator_def)
  have b: "\<bar>(avgFrameDuration s +
               clamp (0.2 * ((t - lastTick s) - avgFrameDuration s)) (- 2) 2)
             - avgFrameDuration s\<bar> \<le> 2"
    by (simp add: clamp_def)
  have c: "scaleStep (render h s t None) = scaleStep s \<longrightarrow>
              avgFrameDuration (render h s t None) = avgFrameDuration s +
                  clamp (0.2 * ((t - lastTick s) - avgFrameDuration s)) (- 2) 2"
    using assms render_tick_avg [of s h t] by (simp add: spec_estimator_def)
  from a b c show ?thesis by blast
qed

text \<open>A first frame of 100 ms moves the sample renderer's smoothed duration from 0 to 2.\<close>

theorem estimator_update_witness:
  "canRender sample_renderer
   \<and> \<not> isPresenting sample_host (arRenderer sample_renderer)
   \<and> render sample_host sample_renderer 100 None =
       updateRendererScale (updateRendererSize sample_host
         (sample_renderer\<lparr>lastTick := 100, avgFrameDuration := 2\<rparr>))"
  using estimator_update [of sample_renderer sample_host 100]
  by (simp add: sample_renderer_fields sample_host_fields clamp_def)

subsection \<open>The smoothed duration after construction\<close>

text \<open>
  C3, as the code has it: right after construction the smoothed duration is 0, since the
  constructor's last assignment replaces the midpoint 22 of the field initialiser. The
  step is 0, and the first render tick, whatever its time stamp, leaves it at 0: a step
  of 0 is not decremented, and one update raises the smoothed duration to 2 at most.
\<close>

theorem constructor_starts_at_zero:
  "avgFrameDuration (constructor h c gl ar now) = 0
   \<and> scaleStep (constructor h c gl ar now) = 0
   \<and> scaleStep (render h' (constructor h c gl ar now) t frame) = 0"
proof -
  have "\<not> 26 < spec_estimator 0 d" for d
    using spec_estimator_bound [of 0 d] by simp
  then have "spec_selector (spec_estimator 0 d) 0 c = 0" for d c
    by (simp add: spec_selector_def)
  then have "scaleStep (render h' (constructor h c gl ar now) t frame) = 0"
    using render_scaleStep_cases [of h' "constructor h c gl ar now" t frame]
    by (auto simp add: constructor_fields)
  then show ?thesis by (simp add: constructor_fields)
qed

text \<open>The sample renderer starts at 0 and stays at step 0 in a first tick after a second.\<close>

theorem constructor_starts_at_zero_witness:
  "avgFrameDuration sample_renderer = 0
   \<and> scaleStep (render sample_host sample_renderer 1000 None) = 0"
  using constructor_starts_at_zero
    [of sample_host sample_canvas "Some WebGLRenderer" "()" 0 sample_host 1000 None]
  by (simp add: sample_renderer_def)

text \<open>The claim as stated fails: the constructed sample renderer does not hold the midpoint.\<close>

theorem constructor_midpoint_counterexample:
  "avgFrameDuration (constructor sample_host sample_canvas (Some WebGLRenderer) () 0)
     \<noteq> (LOW_FRAME_DURATION_MS + HIGH_FRAME_DURATION_MS) / 2"
  by (simp add: constructor_fields LOW_FRAME_DURATION_MS_def HIGH_FRAME_DURATION_MS_def)

subsection \<open>The step stays within its bounds\<close>

lemma render_invariant:
  assumes "0 \<le> scaleStep s" and "scaleStep s \<le> lastStep s"
  shows "0 \<le> scaleStep (render h s t frame) \<and> scaleStep (render h s t frame) \<le> lastStep s"
  using assms render_scaleStep_cases [of h s t frame]
  by (auto simp add: spec_selector_def split: if_splits)

lemma run_lastStep [simp]: "lastStep (run s ticks) = lastStep s"
  by (induction s ticks rule: run.induct) simp_all

lemma run_invariant:
  "0 \<le> scaleStep s \<Longrightarrow> scaleStep s \<le> lastStep s \<Longrightarrow>
   0 \<le> scaleStep (run s ticks) \<and> scaleStep (run s ticks) \<le> lastStep s"
proof (induction s ticks rule: run.induct)
  case (1 s)
  then show ?case by simp
next
  case (2 s h t frame ticks)
  from render_invariant [OF "2.prems", of h t frame]
  have "0 \<le> scaleStep (render h s t frame)"
    and "scaleStep (render h s t frame) \<le> lastStep (render h s t frame)"
    by simp_all
  from "2.IH" [OF this] show ?case by simp
qed

text \<open>
  C4: from a state with \<^verbatim>\<open>scaleStep\<close> 0 and \<^verbatim>\<open>lastStep\<close> between 0 and the last index of
  the scale table, after every run of render ticks, whatever their time stamps,
  \<open>0 \<le> scaleStep \<le> lastStep \<le> length SCALE_STEPS - 1\<close>, and \<^verbatim>\<open>lastStep\<close> is the one of
  the start.
\<close>

theorem scaleStep_within_bounds:
  assumes "scaleStep s = 0" and "0 \<le> lastStep s"
    and "lastStep s \<le> int (length SCALE_STEPS) - 1"
  shows "0 \<le> scaleStep (run s ticks)
         \<and> scaleStep (run s ticks) \<le> lastStep (run s ticks)
         \<and> lastStep (run s ticks) = lastStep s
         \<and> lastStep (run s ticks) \<le> int (length SCALE_STEPS) - 1"
  using assms run_invariant [of s ticks] by simp

text \<open>Two slow frames on the sample renderer.\<close>

theorem scaleStep_within_bounds_witness:
  "scaleStep sample_renderer = 0 \<and> 0 \<le> lastStep sample_renderer
   \<and> lastStep sample_renderer \<le> int (length SCALE_STEPS) - 1
   \<and> 0 \<le> scaleStep (run sample_renderer [(sample_host, 40, None), (sample_host, 80, None)])
   \<and> scaleStep (run sample_renderer [(sample_host, 40, None), (sample_host, 80, None)]) \<le> 3"
  using scaleStep_within_bounds
    [of sample_renderer "[(sample_host, 40, None), (sample_host, 80, None)]"]
  by (simp add: sample_renderer_fields SCALE_STEPS_def)

subsection \<open>The last step from the minimum scale\<close>

lemma SCALE_STEPS_decreasing:
  "i < j \<Longrightarrow> j < length SCALE_STEPS \<Longrightarrow> SCALE_STEPS ! j < SCALE_STEPS ! i"
proof -
  have "sorted_wrt (\<lambda>x y. y < x) SCALE_STEPS"
    by (simp add: SCALE_STEPS_def)
  then show "i < j \<Longrightarrow> j < length SCALE_STEPS \<Longrightarrow> SCALE_STEPS ! j < SCALE_STEPS ! i"
    by (simp add: sorted_wrt_iff_nth_less)
qed

lemma minScale_loop_result:
  "i \<le> length SCALE_STEPS \<Longrightarrow> (\<forall>j<i. scale \<le> SCALE_STEPS ! j) \<Longrightarrow>
   i \<le> minScale_loop scale i \<and> minScale_loop scale i \<le> length SCALE_STEPS \<and>
   (\<forall>j<minScale_loop scale i. scale \<le> SCALE_STEPS ! j) \<and>
   (minScale_loop scale i < length SCALE_STEPS \<longrightarrow>
      SCALE_STEPS ! (minScale_loop scale i) < scale)"
proof (induction scale i rule: minScale_loop.induct)
  case (1 scale i)
  show ?case
  proof (cases "i < length SCALE_STEPS")
    case False
    then have "minScale_loop scale i = i"
      by (simp add: minScale_loop.simps [of scale i])
    with False "1.prems" show ?thesis by simp
  next
    case inside: True
    show ?thesis
    proof (cases "SCALE_STEPS ! i < scale")
      case True
      with inside have "minScale_loop scale i = i"
        by (simp add: minScale_loop.simps [of scale i])
      with True inside "1.prems" show ?thesis by simp
    next
      case False
      have "\<forall>j<i + 1. scale \<le> SCALE_STEPS ! j"
        using False "1.prems"(2) by (auto simp add: less_Suc_eq)
      with "1.IH" [OF inside False] inside
      have "i + 1 \<le> minScale_loop scale (i + 1) \<and>
            minScale_loop scale (i + 1) \<le> length SCALE_STEPS \<and>
            (\<forall>j<minScale_loop scale (i + 1). scale \<le> SCALE_STEPS ! j) \<and>
            (minScale_loop scale (i + 1) < length SCALE_STEPS \<longrightarrow>
               SCALE_STEPS ! (minScale_loop scale (i + 1)) < scale)"
        by simp
      moreover have "minScale_loop scale i = minScale_loop scale (i + 1)"
        using inside False by (simp add: minScale_loop.simps [of scale i])
      ultimately show ?thesis by simp
    qed
  qed
qed

text \<open>
  C5: for a minimum scale in (0, 1], \<^verbatim>\<open>set minScale\<close> leaves in \<^verbatim>\<open>lastStep\<close> the largest
  index of \<open>[1, 0.79, 0.62, 0.5, 0.4, 0.31, 0.25]\<close> whose entry is at least the minimum:
  the index is in the table, its entry and every entry before it are at least the minimum,
  no index with such an entry is larger, and the entry after it, if there is one, is the
  first below the minimum, where the walk from index 1 stopped.
\<close>

theorem minScale_lastStep:
  assumes "0 < scale" and "scale \<le> 1"
  shows "SCALE_STEPS = [1, 0.79, 0.62, 0.5, 0.4, 0.31, 0.25]
    \<and> 0 \<le> lastStep (minScale s scale)
    \<and> lastStep (minScale s scale) < int (length SCALE_STEPS)
    \<and> scale \<le> SCALE_STEPS ! nat (lastStep (minScale s scale))
    \<and> (\<forall>j < length SCALE_STEPS.
          scale \<le> SCALE_STEPS ! j \<longrightarrow> int j \<le> lastStep (minScale s scale))
    \<and> (\<forall>j. int j \<le> lastStep (minScale s scale) \<longrightarrow> scale \<le> SCALE_STEPS ! j)
    \<and> (lastStep (minScale s scale) + 1 < int (length SCALE_STEPS) \<longrightarrow>
          SCALE_STEPS ! nat (lastStep (minScale s scale) + 1) < scale)"
proof -
  define r where "r = minScale_loop scale 1"
  have first: "\<forall>j<1. scale \<le> SCALE_STEPS ! j"
    using assms by (simp add: SCALE_STEPS_def)
  have len: "(1::nat) \<le> length SCALE_STEPS"
    by (simp add: SCALE_STEPS_def)
  from minScale_loop_result [OF len first]
  have r1: "1 \<le> r" and r2: "r \<le> length SCALE_STEPS"
    and r3: "\<forall>j<r. scale \<le> SCALE_STEPS ! j"
    and r4: "r < length SCALE_STEPS \<longrightarrow> SCALE_STEPS ! r < scale"
    by (simp_all add: r_def)
  have k: "lastStep (minScale s scale) = int r - 1"
    by (simp add: minScale_def r_def)
  have largest: "\<forall>j < length SCALE_STEPS. scale \<le> SCALE_STEPS ! j \<longrightarrow> j < r"
  proof (intro allI impI)
    fix j assume j: "j < length SCALE_STEPS" and ge: "scale \<le> SCALE_STEPS ! j"
    show "j < r"
    proof (rule ccontr)
      assume "\<not> j < r"
      then have rj: "r \<le> j" by simp
      with j have "r < length SCALE_STEPS" by simp
      with r4 have below: "SCALE_STEPS ! r < scale" by simp
      have "SCALE_STEPS ! j \<le> SCALE_STEPS ! r"
      proof (cases "r = j")
        case True then show ?thesis by simp
      next
        case False
        with rj have "r < j" by simp
        from SCALE_STEPS_decreasing [OF this j] show ?thesis by simp
      qed
      with below ge show False by simp
    qed
  qed
  have nat_k: "nat (int r - 1) = r - 1" by simp
  have nat_k1: "nat (int r - 1 + 1) = r" by simp
  show ?thesis
    unfolding k nat_k nat_k1
  proof (intro conjI)
    show "SCALE_STEPS = [1, 0.79, 0.62, 0.5, 0.4, 0.31, 0.25]"
      by (simp add: SCALE_STEPS_def)
    show "0 \<le> int r - 1" using r1 by simp
    show "int r - 1 < int (length SCALE_STEPS)" using r2 by simp
    show "scale \<le> SCALE_STEPS ! (r - 1)" using r1 r3 by simp
    show "\<forall>j<length SCALE_STEPS. scale \<le> SCALE_STEPS ! j \<longrightarrow> int j \<le> int r - 1"
      using largest by fastforce
    show "\<forall>j. int j \<le> int r - 1 \<longrightarrow> scale \<le> SCALE_STEPS ! j"
      using r3 by auto
    show "int r - 1 + 1 < int (length SCALE_STEPS) \<longrightarrow> SCALE_STEPS ! r < scale"
      using r4 by simp
  qed
qed

text \<open>A minimum scale of 0.5 gives the last step 3, the default.\<close>

theorem minScale_lastStep_witness:
  "(0::real) < 0.5 \<and> (0.5::real) \<le> 1 \<and> lastStep (minScale sample_renderer 0.5) = 3"
proof -
  have pos: "(0::real) < 0.5" and le: "(0.5::real) \<le> 1" by simp_all
  note w = minScale_lastStep [OF pos le, of sample_renderer]
  from w have "\<forall>j < length SCALE_STEPS.
      0.5 \<le> SCALE_STEPS ! j \<longrightarrow> int j \<le> lastStep (minScale sample_renderer 0.5)"
    by blast
  then have "(3::nat) < length SCALE_STEPS \<longrightarrow> 0.5 \<le> SCALE_STEPS ! 3 \<longrightarrow>
      int 3 \<le> lastStep (minScale sample_renderer 0.5)"
    by blast
  then have lower: "3 \<le> lastStep (minScale sample_renderer 0.5)"
    by (simp add: SCALE_STEPS_def)
  from w have "\<forall>j. int j \<le> lastStep (minScale sample_renderer 0.5) \<longrightarrow>
      0.5 \<le> SCALE_STEPS ! j"
    by blast
  then have "int 4 \<le> lastStep (minScale sample_renderer 0.5) \<longrightarrow> 0.5 \<le> SCALE_STEPS ! 4"
    by blast
  then have upper: "lastStep (minScale sample_renderer 0.5) < 4"
    by (simp add: SCALE_STEPS_def)
  from lower upper pos le show ?thesis by simp
qed

subsection \<open>After a step change\<close>

text \<open>
  C6: a render tick that changes \<^verbatim>\<open>scaleStep\<close>, up or down, leaves the smoothed duration
  at the midpoint (18 + 26) / 2 = 22, and the render tick that follows it, whatever its
  time stamp, does not change the step again: one update moves 22 by at most 2, which is
  neither above 26 nor below 18.
\<close>

theorem reset_blocks_next_tick:
  assumes "scaleStep (render h s t frame) \<noteq> scaleStep s"
  shows "avgFrameDuration (render h s t frame) =
           (LOW_FRAME_DURATION_MS + HIGH_FRAME_DURATION_MS) / 2
         \<and> avgFrameDuration (render h s t frame) = 22
         \<and> scaleStep (render h' (render h s t frame) t' frame') =
             scaleStep (render h s t frame)"
proof -
  from assms render_scaleStep_cases [of h s t frame]
  have reach: "canRender s" "frame = None" "\<not> isPresenting h (arRenderer s)"
    by auto
  with assms have avg: "avgFrameDuration (render h s t frame) = 22"
    using render_tick_avg [of s h t] by simp
  have "scaleStep (render h' (render h s t frame) t' frame') = scaleStep (render h s t frame)"
    using render_scaleStep_cases [of h' "render h s t frame" t' frame'] avg
    by (auto simp add: spec_selector_midpoint)
  with avg show ?thesis
    by (simp add: LOW_FRAME_DURATION_MS_def HIGH_FRAME_DURATION_MS_def)
qed

lemma slow_sample_first_tick:
  "scaleStep (render sample_host (sample_renderer\<lparr>avgFrameDuration := 40\<rparr>) 40 None) = 1"
proof -
  have c: "canRender (sample_renderer\<lparr>avgFrameDuration := 40\<rparr>)"
    using sample_renderer_fields(1) by (simp add: canRender_def)
  have e: "spec_estimator 40 40 = 40" by (simp add: spec_estimator_def clamp_def)
  from render_tick_scaleStep [OF c sample_host_fields(2), of 40]
  show ?thesis by (simp add: sample_renderer_fields e spec_selector_def)
qed

text \<open>
  The sample renderer with a smoothed duration of 40 ms steps to 1 at a 40 ms frame, and
  a frame of a whole second right after it changes nothing.
\<close>

theorem reset_blocks_next_tick_witness:
  "scaleStep (render sample_host (sample_renderer\<lparr>avgFrameDuration := 40\<rparr>) 40 None)
     \<noteq> scaleStep (sample_renderer\<lparr>avgFrameDuration := 40\<rparr>)
   \<and> avgFrameDuration (render sample_host (sample_renderer\<lparr>avgFrameDuration := 40\<rparr>) 40 None)
     = 22
   \<and> scaleStep (render sample_host
        (render sample_host (sample_renderer\<lparr>avgFrameDuration := 40\<rparr>) 40 None) 1040 None)
     = 1"
proof -
  have changed:
    "scaleStep (render sample_host (sample_renderer\<lparr>avgFrameDuration := 40\<rparr>) 40 None)
       \<noteq> scaleStep (sample_renderer\<lparr>avgFrameDuration := 40\<rparr>)"
    by (simp add: slow_sample_first_tick sample_renderer_fields)
  from reset_blocks_next_tick [OF changed, of sample_host 1040 None] changed
  show ?thesis by (simp add: slow_sample_first_tick)
qed

subsection \<open>A constant frame duration of 30 ms\<close>

lemma thirty_ms_trace:
  assumes "avgFrameDuration s = 22" and "scaleStep s = 0" and "1 \<le> lastStep s"
    and "canRender s" and "\<not> isPresenting h (arRenderer s)"
  shows "scaleStep (run s [(h, lastTick s + 30, None)]) = 0
       \<and> avgFrameDuration (run s [(h, lastTick s + 30, None)]) = 23.6
       \<and> scaleStep (run s [(h, lastTick s + 30, None), (h, lastTick s + 60, None)]) = 0
       \<and> avgFrameDuration (run s [(h, lastTick s + 30, None), (h, lastTick s + 60, None)])
           = 24.88
       \<and> scaleStep (run s [(h, lastTick s + 30, None), (h, lastTick s + 60, None),
                            (h, lastTick s + 90, None)]) = 0
       \<and> avgFrameDuration (run s [(h, lastTick s + 30, None), (h, lastTick s + 60, None),
                            (h, lastTick s + 90, None)]) = 25.904
       \<and> scaleStep (run s [(h, lastTick s + 30, None), (h, lastTick s + 60, None),
                            (h, lastTick s + 90, None), (h, lastTick s + 120, None)]) = 1
       \<and> avgFrameDuration (run s [(h, lastTick s + 30, None), (h, lastTick s + 60, None),
                            (h, lastTick s + 90, None), (h, lastTick s + 120, None)]) = 22"
proof -
  define s1 where "s1 = render h s (lastTick s + 30) None"
  define s2 where "s2 = render h s1 (lastTick s + 60) None"
  define s3 where "s3 = render h s2 (lastTick s + 90) None"
  define s4 where "s4 = render h s3 (lastTick s + 120) None"
  have e1: "spec_estimator 22 30 = 118 / 5"
    by (simp add: spec_estimator_def clamp_def)
  have e2: "spec_estimator (118 / 5) 30 = 622 / 25"
    by (simp add: spec_estimator_def clamp_def)
  have e3: "spec_estimator (622 / 25) 30 = 3238 / 125"
    by (simp add: spec_estimator_def clamp_def)
  have e4: "spec_estimator (3238 / 125) 30 = 16702 / 625"
    by (simp add: spec_estimator_def clamp_def)
  have r1: "canRender s1" "\<not> isPresenting h (arRenderer s1)" "lastTick s1 = lastTick s + 30"
    "lastStep s1 = lastStep s"
    using assms by (simp_all add: s1_def)
  have step1: "scaleStep s1 = 0"
    using render_tick_scaleStep [OF assms(4,5), of "lastTick s + 30"]
    by (simp add: s1_def assms(1,2) e1 spec_selector_def)
  have avg1: "avgFrameDuration s1 = 118 / 5"
    using render_tick_avg [OF assms(4,5), of "lastTick s + 30"] step1
    by (simp add: s1_def assms(1,2) e1)
  have r2: "canRender s2" "\<not> isPresenting h (arRenderer s2)" "lastTick s2 = lastTick s + 60"
    "lastStep s2 = lastStep s"
    using r1 by (simp_all add: s2_def)
  have step2: "scaleStep s2 = 0"
    using render_tick_scaleStep [OF r1(1,2), of "lastTick s + 60"]
    by (simp add: s2_def r1(3,4) step1 avg1 e2 spec_selector_def)
  have avg2: "avgFrameDuration s2 = 622 / 25"
    using render_tick_avg [OF r1(1,2), of "lastTick s + 60"] step2
    by (simp add: s2_def r1(3,4) step1 avg1 e2)
  have r3: "canRender s3" "\<not> isPresenting h (arRenderer s3)" "lastTick s3 = lastTick s + 90"
    "lastStep s3 = lastStep s"
    using r2 by (simp_all add: s3_def)
  have step3: "scaleStep s3 = 0"
    using render_tick_scaleStep [OF r2(1,2), of "lastTick s + 90"]
    by (simp add: s3_def r2(3,4) step2 avg2 e3 spec_selector_def)
  have avg3: "avgFrameDuration s3 = 3238 / 125"
    using render_tick_avg [OF r2(1,2), of "lastTick s + 90"] step3
    by (simp add: s3_def r2(3,4) step2 avg2 e3)
  have step4: "scaleStep s4 = 1"
    using render_tick_scaleStep [OF r3(1,2), of "lastTick s + 120"] assms(3)
    by (simp add: s4_def r3(3,4) step3 avg3 e4 spec_selector_def)
  have avg4: "avgFrameDuration s4 = 22"
    using render_tick_avg [OF r3(1,2), of "lastTick s + 120"] step4
    by (simp add: s4_def r3(3,4) step3)
  show ?thesis
    using step1 avg1 step2 avg2 step3 avg3 step4 avg4
    unfolding s1_def s2_def s3_def s4_def run.simps by simp
qed

lemma midpoint_sample:
  "avgFrameDuration (sample_renderer\<lparr>avgFrameDuration := 22\<rparr>) = 22"
  "scaleStep (sample_renderer\<lparr>avgFrameDuration := 22\<rparr>) = 0"
  "1 \<le> lastStep (sample_renderer\<lparr>avgFrameDuration := 22\<rparr>)"
  "canRender (sample_renderer\<lparr>avgFrameDuration := 22\<rparr>)"
  "\<not> isPresenting sample_host (arRenderer (sample_renderer\<lparr>avgFrameDuration := 22\<rparr>))"
  "lastTick (sample_renderer\<lparr>avgFrameDuration := 22\<rparr>) = 0"
  using sample_renderer_fields(1)
  by (simp_all add: sample_renderer_fields sample_host_fields canRender_def)

text \<open>
  C7, as the code has it: from a smoothed duration of 22 and step 0, with a last step of at
  least 1, ticks every 30 ms leave the step at 0 for three evaluations, the smoothed
  duration going to 23.6, 24.88 and 25.904, none above 26: each update adds a fifth of the
  distance to 30, which is less than 2. The fourth evaluation reaches 26.7232, steps to 1
  and resets the smoothed duration to 22.
\<close>

theorem constant_30_steps_at_fourth_tick:
  assumes "avgFrameDuration s = 22" and "scaleStep s = 0" and "1 \<le> lastStep s"
    and "canRender s" and "\<not> isPresenting h (arRenderer s)"
  shows "scaleStep (run s [(h, lastTick s + 30, None)]) = 0
       \<and> avgFrameDuration (run s [(h, lastTick s + 30, None)]) = 23.6
       \<and> scaleStep (run s [(h, lastTick s + 30, None), (h, lastTick s + 60, None)]) = 0
       \<and> avgFrameDuration (run s [(h, lastTick s + 30, None), (h, lastTick s + 60, None)])
           = 24.88
       \<and> scaleStep (run s [(h, lastTick s + 30, None), (h, lastTick s + 60, None),
                            (h, lastTick s + 90, None)]) = 0
       \<and> avgFrameDuration (run s [(h, lastTick s + 30, None), (h, lastTick s + 60, None),
                            (h, lastTick s + 90, None)]) = 25.904
       \<and> scaleStep (run s [(h, lastTick s + 30, None), (h, lastTick s + 60, None),
                            (h, lastTick s + 90, None), (h, lastTick s + 120, None)]) = 1
       \<and> avgFrameDuration (run s [(h, lastTick s + 30, None), (h, lastTick s + 60, None),
                            (h, lastTick s + 90, None), (h, lastTick s + 120, None)]) = 22"
  using assms by (rule thirty_ms_trace)

text \<open>The sample renderer, put at the midpoint, with ticks at 30, 60, 90 and 120 ms.\<close>

theorem constant_30_steps_at_fourth_tick_witness:
  "avgFrameDuration (sample_renderer\<lparr>avgFrameDuration := 22\<rparr>) = 22
   \<and> scaleStep (sample_renderer\<lparr>avgFrameDuration := 22\<rparr>) = 0
   \<and> 1 \<le> lastStep (sample_renderer\<lparr>avgFrameDuration := 22\<rparr>)
   \<and> canRender (sample_renderer\<lparr>avgFrameDuration := 22\<rparr>)
   \<and> \<not> isPresenting sample_host (arRenderer (sample_renderer\<lparr>avgFrameDuration := 22\<rparr>))
   \<and> scaleStep (run (sample_renderer\<lparr>avgFrameDuration := 22\<rparr>)
        [(sample_host, 30, None), (sample_host, 60, None), (sample_host, 90, None)]) = 0
   \<and> scaleStep (run (sample_renderer\<lparr>avgFrameDuration := 22\<rparr>)
        [(sample_host, 30, None), (sample_host, 60, None), (sample_host, 90, None),
         (sample_host, 120, None)]) = 1"
  using constant_30_steps_at_fourth_tick [OF midpoint_sample(1-5)] midpoint_sample
  by simp

text \<open>
  The claim as stated fails: after the first and after the second evaluation the step of
  the sample renderer is still 0, and the smoothed duration after the second is 24.88,
  not above 26.
\<close>

theorem constant_30_two_ticks_counterexample:
  "scaleStep (run (sample_renderer\<lparr>avgFrameDuration := 22\<rparr>) [(sample_host, 30, None)]) \<noteq> 1
   \<and> scaleStep (run (sample_renderer\<lparr>avgFrameDuration := 22\<rparr>)
        [(sample_host, 30, None), (sample_host, 60, None)]) \<noteq> 1
   \<and> \<not> 26 < avgFrameDuration (run (sample_renderer\<lparr>avgFrameDuration := 22\<rparr>)
        [(sample_host, 30, None), (sample_host, 60, None)])"
  using thirty_ms_trace [OF midpoint_sample(1-5)] midpoint_sample
  by simp

subsection \<open>The resizer with two surfaces\<close>

lemma two_surfaces_sample:
  "scenes (sample_renderer\<lparr>scenes := [sample_scene 800 600, sample_scene 400 300]\<rparr>)
     = [sample_scene 800 600, sample_scene 400 300]"
  "dpr (sample_renderer\<lparr>scenes := [sample_scene 800 600, sample_scene 400 300]\<rparr>) = 2"
  "scaleStep (sample_renderer\<lparr>scenes := [sample_scene 800 600, sample_scene 400 300]\<rparr>) = 0"
  "canRender (sample_renderer\<lparr>scenes := [sample_scene 800 600, sample_scene 400 300]\<rparr>)"
  "width (sample_renderer\<lparr>scenes := [sample_scene 800 600, sample_scene 400 300]\<rparr>) = 0"
  by (simp_all add: sample_renderer_def constructor_def Let_def updateRendererSize_def
      sample_host_def canRender_def)

text \<open>
  C8, as the code has it: with two surfaces of logical sizes 800 x 600 and 400 x 300 at
  device pixel ratio 2 and scale step 0, a resizer run that finds the size changed sizes
  the shared canvas to 1600 x 1200 and styles it 800 x 600, and gives every surface's
  canvas that same backing store of 1600 x 1200 and that same CSS size of 800 x 600, the
  largest width and height over the scale factor 1: also the canvas of the 400 x 300
  surface. The logical sizes of the surfaces stay.
\<close>

theorem resizer_two_surfaces:
  assumes "scenes s = [a, b]"
    and "scene_width a = 800" and "scene_height a = 600"
    and "scene_width b = 400" and "scene_height b = 300"
    and "resolveDpr h = 2" and "dpr s = 2" and "scaleStep s = 0"
    and "canRender s" and "\<not> (width s = 800 \<and> height s = 600)"
  shows "canvas_width (canvas3D (updateRendererSize h s)) = 1600
       \<and> canvas_height (canvas3D (updateRendererSize h s)) = 1200
       \<and> style_width (canvas3D (updateRendererSize h s)) = Some 800
       \<and> style_height (canvas3D (updateRendererSize h s)) = Some 600
       \<and> scenes (updateRendererSize h s) =
           [a\<lparr>canvas := (canvas a)\<lparr>canvas_width := 1600, canvas_height := 1200,
                                   style_width := Some 800, style_height := Some 600\<rparr>\<rparr>,
            b\<lparr>canvas := (canvas b)\<lparr>canvas_width := 1600, canvas_height := 1200,
                                   style_width := Some 800, style_height := Some 600\<rparr>\<rparr>]"
  using assms
  by (auto simp add: updateRendererSize_def Let_def setSize_def divide_by_def
      scaleFactor_def canRender_def SCALE_STEPS_def)

text \<open>The sample renderer with the two surfaces registered and not yet sized.\<close>

theorem resizer_two_surfaces_witness:
  "scenes (sample_renderer\<lparr>scenes := [sample_scene 800 600, sample_scene 400 300]\<rparr>)
     = [sample_scene 800 600, sample_scene 400 300]
   \<and> scene_width (sample_scene 800 600) = 800 \<and> scene_height (sample_scene 800 600) = 600
   \<and> scene_width (sample_scene 400 300) = 400 \<and> scene_height (sample_scene 400 300) = 300
   \<and> resolveDpr sample_host = 2
   \<and> dpr (sample_renderer\<lparr>scenes := [sample_scene 800 600, sample_scene 400 300]\<rparr>) = 2
   \<and> scaleStep (sample_renderer\<lparr>scenes := [sample_scene 800 600, sample_scene 400 300]\<rparr>) = 0
   \<and> canRender (sample_renderer\<lparr>scenes := [sample_scene 800 600, sample_scene 400 300]\<rparr>)
   \<and> \<not> (width (sample_renderer\<lparr>scenes := [sample_scene 800 600, sample_scene 400 300]\<rparr>)
          = 800
        \<and> height (sample_renderer\<lparr>scenes := [sample_scene 800 600, sample_scene 400 300]\<rparr>)
          = 600)
   \<and> canvas_width (canvas3D (updateRendererSize sample_host
        (sample_renderer\<lparr>scenes := [sample_scene 800 600, sample_scene 400 300]\<rparr>))) = 1600
   \<and> canvas_height (canvas3D (updateRendererSize sample_host
        (sample_renderer\<lparr>scenes := [sample_scene 800 600, sample_scene 400 300]\<rparr>))) = 1200
   \<and> map (\<lambda>scene. style_width (canvas scene)) (scenes (updateRendererSize sample_host
        (sample_renderer\<lparr>scenes := [sample_scene 800 600, sample_scene 400 300]\<rparr>)))
      = [Some 800, Some 800]"
proof -
  have sizes: "scene_width (sample_scene 800 600) = 800" "scene_height (sample_scene 800 600) = 600"
    "scene_width (sample_scene 400 300) = 400" "scene_height (sample_scene 400 300) = 300"
    by (simp_all add: sample_scene_def)
  have unsized:
    "\<not> (width (sample_renderer\<lparr>scenes := [sample_scene 800 600, sample_scene 400 300]\<rparr>)
          = 800
        \<and> height (sample_renderer\<lparr>scenes := [sample_scene 800 600, sample_scene 400 300]\<rparr>)
          = 600)"
    by (simp add: two_surfaces_sample(5))
  from resizer_two_surfaces [OF two_surfaces_sample(1) sizes sample_host_fields(1)
      two_surfaces_sample(2,3,4) unsized]
  show ?thesis
    using two_surfaces_sample sizes sample_host_fields(1) by simp
qed

text \<open>
  The claim as stated fails: after the resizer ran, the canvas of the second surface, of
  logical size 400 x 300, is styled 800 x 600.
\<close>

theorem resizer_own_size_counterexample:
  "scene_width (scenes (updateRendererSize sample_host
      (sample_renderer\<lparr>scenes := [sample_scene 800 600, sample_scene 400 300]\<rparr>)) ! 1) = 400
   \<and> style_width (canvas (scenes (updateRendererSize sample_host
      (sample_renderer\<lparr>scenes := [sample_scene 800 600, sample_scene 400 300]\<rparr>)) ! 1))
       \<noteq> Some 400
   \<and> scene_height (scenes (updateRendererSize sample_host
      (sample_renderer\<lparr>scenes := [sample_scene 800 600, sample_scene 400 300]\<rparr>)) ! 1) = 300
   \<and> style_height (canvas (scenes (updateRendererSize sample_host
      (sample_renderer\<lparr>scenes := [sample_scene 800 600, sample_scene 400 300]\<rparr>)) ! 1))
       \<noteq> Some 300"
  by (simp add: updateRendererSize_def Let_def setSize_def divide_by_def scaleFactor_def
      SCALE_STEPS_def sample_renderer_def sample_host_def sample_scene_def sample_canvas_def
      constructor_def canRender_def DEFAULT_LAST_STEP_def round_def)

subsection \<open>Where the smoothed duration lies\<close>

lemma render_hull:
  assumes "lo \<le> avgFrameDuration s" and "avgFrameDuration s \<le> hi" and "lo \<le> 22"
    and "0 < scaleStep s \<longrightarrow> 22 \<le> hi"
    and "\<forall>d \<in> set (deltas s [(h, t, frame)]). lo \<le> d \<and> d \<le> hi"
  shows "lo \<le> avgFrameDuration (render h s t frame)
       \<and> avgFrameDuration (render h s t frame) \<le> hi
       \<and> (0 < scaleStep (render h s t frame) \<longrightarrow> 22 \<le> hi)"
proof (cases "frame = None \<and> canRender s \<and> \<not> isPresenting h (arRenderer s)")
  case False
  then have "avgFrameDuration (render h s t frame) = avgFrameDuration s"
    and "scaleStep (render h s t frame) = scaleStep s"
    by (cases frame; auto simp add: render_xr render_idle)+
  with assms show ?thesis by simp
next
  case True
  define a' where "a' = spec_estimator (avgFrameDuration s) (t - lastTick s)"
  from True assms(5) have d: "lo \<le> t - lastTick s" "t - lastTick s \<le> hi" by simp_all
  have "lo \<le> min (avgFrameDuration s) (t - lastTick s)"
    and "max (avgFrameDuration s) (t - lastTick s) \<le> hi"
    using d assms(1,2) by simp_all
  with spec_estimator_between [of "avgFrameDuration s" "t - lastTick s"]
  have a: "lo \<le> a'" "a' \<le> hi"
    unfolding a'_def by linarith+
  have step: "scaleStep (render h s t frame) = spec_selector a' (scaleStep s) (lastStep s)"
    using True render_tick_scaleStep [of s h t] by (simp add: a'_def)
  have avg: "avgFrameDuration (render h s t frame) =
      (if scaleStep (render h s t frame) = scaleStep s then a' else 22)"
    using True render_tick_avg [of s h t] by (simp add: a'_def)
  show ?thesis
  proof (cases "scaleStep (render h s t frame) = scaleStep s")
    case True
    with avg a assms(4) show ?thesis by simp
  next
    case False
    with step have "(26 < a' \<and> scaleStep (render h s t frame) = scaleStep s + 1)
        \<or> (0 < scaleStep s \<and> scaleStep (render h s t frame) = scaleStep s - 1)"
      by (auto simp add: spec_selector_def split: if_splits)
    then have "22 \<le> hi" using a(2) assms(4) by auto
    with False avg assms(3) show ?thesis by simp
  qed
qed

lemma run_hull:
  "lo \<le> avgFrameDuration s \<Longrightarrow> avgFrameDuration s \<le> hi \<Longrightarrow> lo \<le> 22 \<Longrightarrow>
   (0 < scaleStep s \<longrightarrow> 22 \<le> hi) \<Longrightarrow>
   (\<forall>d \<in> set (deltas s ticks). lo \<le> d \<and> d \<le> hi) \<Longrightarrow>
   lo \<le> avgFrameDuration (run s ticks) \<and> avgFrameDuration (run s ticks) \<le> hi"
proof (induction s ticks rule: run.induct)
  case (1 s)
  then show ?case by simp
next
  case (2 s h t frame ticks)
  have first: "\<forall>d \<in> set (deltas s [(h, t, frame)]). lo \<le> d \<and> d \<le> hi"
    using "2.prems"(5) by simp
  have rest: "\<forall>d \<in> set (deltas (render h s t frame) ticks). lo \<le> d \<and> d \<le> hi"
    using "2.prems"(5) by simp
  from render_hull [OF "2.prems"(1-4) first]
  have "lo \<le> avgFrameDuration (render h s t frame)"
    and "avgFrameDuration (render h s t frame) \<le> hi"
    and "0 < scaleStep (render h s t frame) \<longrightarrow> 22 \<le> hi"
    by simp_all
  from "2.IH" [OF this(1) this(2) "2.prems"(3) this(3) rest] show ?case by simp
qed

lemma first_frame_100:
  "deltas sample_renderer [(sample_host, 100, None)] = [100]"
  "avgFrameDuration (run sample_renderer [(sample_host, 100, None)]) = 2"
proof -
  have e: "spec_estimator 0 100 = 2" by (simp add: spec_estimator_def clamp_def)
  show "deltas sample_renderer [(sample_host, 100, None)] = [100]"
    by (simp add: sample_renderer_fields sample_host_fields)
  have st: "scaleStep (render sample_host sample_renderer 100 None) = 0"
    using render_tick_scaleStep [OF sample_renderer_fields(1) sample_host_fields(2), of 100]
    by (simp add: sample_renderer_fields e spec_selector_def)
  show "avgFrameDuration (run sample_renderer [(sample_host, 100, None)]) = 2"
    using render_tick_avg [OF sample_renderer_fields(1) sample_host_fields(2), of 100] st
    by (simp add: sample_renderer_fields e)
qed

text \<open>
  C9, as the code has it: after every run of render ticks from the constructed renderer,
  the smoothed duration lies between the least and the greatest of 0, its value at
  construction, and the frame durations fed to the estimator so far. A step change resets
  it to 22, which lies in that range whenever a step change can happen.
\<close>

theorem avg_within_zero_and_deltas:
  "Min (set (0 # deltas (constructor h c gl ar now) ticks))
     \<le> avgFrameDuration (run (constructor h c gl ar now) ticks)
   \<and> avgFrameDuration (run (constructor h c gl ar now) ticks)
     \<le> Max (set (0 # deltas (constructor h c gl ar now) ticks))"
proof -
  define s where "s = constructor h c gl ar now"
  define lo where "lo = Min (set (0 # deltas s ticks))"
  define hi where "hi = Max (set (0 # deltas s ticks))"
  have lo0: "lo \<le> 0" unfolding lo_def by (rule Min_le) simp_all
  have hi0: "0 \<le> hi" unfolding hi_def by (rule Max_ge) simp_all
  have ds: "\<forall>d \<in> set (deltas s ticks). lo \<le> d \<and> d \<le> hi"
    unfolding lo_def hi_def by (auto intro: Min_le Max_ge)
  have "lo \<le> avgFrameDuration (run s ticks) \<and> avgFrameDuration (run s ticks) \<le> hi"
  proof (rule run_hull)
    show "lo \<le> avgFrameDuration s" using lo0 by (simp add: s_def constructor_fields)
    show "avgFrameDuration s \<le> hi" using hi0 by (simp add: s_def constructor_fields)
    show "lo \<le> 22" using lo0 by simp
    show "0 < scaleStep s \<longrightarrow> 22 \<le> hi" by (simp add: s_def constructor_fields)
    show "\<forall>d \<in> set (deltas s ticks). lo \<le> d \<and> d \<le> hi" by (rule ds)
  qed
  then show ?thesis unfolding lo_def hi_def s_def .
qed

text \<open>The sample renderer after a first frame of 100 ms: 2 lies between 0 and 100.\<close>

theorem avg_within_zero_and_deltas_witness:
  "Min {0, 100} \<le> avgFrameDuration (run sample_renderer [(sample_host, 100, None)])
   \<and> avgFrameDuration (run sample_renderer [(sample_host, 100, None)]) \<le> Max {0, 100}"
  using avg_within_zero_and_deltas
    [of sample_host sample_canvas "Some WebGLRenderer" "()" 0 "[(sample_host, 100, None)]"]
  unfolding sample_renderer_def [symmetric] first_frame_100(1) by simp

text \<open>
  The claim as stated fails: the only frame duration observed is 100 ms, and the smoothed
  duration after that tick is 2.
\<close>

theorem avg_outside_observed_deltas_counterexample:
  "deltas sample_renderer [(sample_host, 100, None)] = [100]
   \<and> avgFrameDuration (run sample_renderer [(sample_host, 100, None)]) = 2
   \<and> \<not> (Min (set (deltas sample_renderer [(sample_host, 100, None)]))
          \<le> avgFrameDuration (run sample_renderer [(sample_host, 100, None)]))"
  unfolding first_frame_100 by simp

subsection \<open>A render call with an XR frame\<close>

text \<open>
  C10: a call of \<^verbatim>\<open>render\<close> with an XR frame hands the frame to the AR renderer and
  returns: \<^verbatim>\<open>lastTick\<close>, the smoothed duration, the step, the last step, the renderer's
  size and pixel ratio, the shared canvas and the scenes with their canvases are as
  before. The time stamp is not recorded, so the next tick that reaches the estimator
  feeds it the time since the \<^verbatim>\<open>lastTick\<close> from before the XR frame.
\<close>

theorem xr_frame_leaves_controller:
  "lastTick (render h s t (Some f)) = lastTick s
   \<and> avgFrameDuration (render h s t (Some f)) = avgFrameDuration s
   \<and> scaleStep (render h s t (Some f)) = scaleStep s
   \<and> lastStep (render h s t (Some f)) = lastStep s
   \<and> width (render h s t (Some f)) = width s
   \<and> height (render h s t (Some f)) = height s
   \<and> dpr (render h s t (Some f)) = dpr s
   \<and> canvas3D (render h s t (Some f)) = canvas3D s
   \<and> scenes (render h s t (Some f)) = scenes s
   \<and> threeRenderer (render h s t (Some f)) = threeRenderer s
   \<and> arRenderer (render h s t (Some f)) = onWebXRFrame h (arRenderer s) t f
   \<and> (canRender s \<and> \<not> isPresenting h' (onWebXRFrame h (arRenderer s) t f) \<longrightarrow>
        render h' (render h s t (Some f)) t' None =
          updateRendererScale (updateRendererSize h'
            ((render h s t (Some f))\<lparr>lastTick := t',
               avgFrameDuration := avgFrameDuration s +
                 clamp (0.2 * ((t' - lastTick s) - avgFrameDuration s)) (- 2) 2\<rparr>)))"
proof -
  have xr: "render h s t (Some f) = s\<lparr>arRenderer := onWebXRFrame h (arRenderer s) t f\<rparr>"
    by (rule render_xr)
  have next_tick: "render h' (render h s t (Some f)) t' None =
          updateRendererScale (updateRendererSize h'
            ((render h s t (Some f))\<lparr>lastTick := t',
               avgFrameDuration := avgFrameDuration s +
                 clamp (0.2 * ((t' - lastTick s) - avgFrameDuration s)) (- 2) 2\<rparr>))"
    if "canRender s" and "\<not> isPresenting h' (onWebXRFrame h (arRenderer s) t f)"
  proof -
    have "canRender (render h s t (Some f))" using that(1) by simp
    moreover have "\<not> isPresenting h' (arRenderer (render h s t (Some f)))"
      using that(2) by (simp add: xr)
    ultimately show ?thesis
      using render_tick [of "render h s t (Some f)" h' t']
      by (simp add: spec_estimator_def xr)
  qed
  show ?thesis using next_tick by (simp add: xr)
qed

text \<open>
  An XR frame at 500 ms on the sample renderer, then a plain tick at 1000 ms: the
  estimator is fed the full 1000 ms since construction and moves from 0 to 2.
\<close>

theorem xr_frame_leaves_controller_witness:
  "lastTick (render sample_host sample_renderer 500 (Some ())) = 0
   \<and> canRender sample_renderer
   \<and> \<not> isPresenting sample_host (onWebXRFrame sample_host (arRenderer sample_renderer) 500 ())
   \<and> render sample_host (render sample_host sample_renderer 500 (Some ())) 1000 None =
       updateRendererScale (updateRendererSize sample_host
         ((render sample_host sample_renderer 500 (Some ()))\<lparr>lastTick := 1000,
            avgFrameDuration := 2\<rparr>))"
  using xr_frame_leaves_controller [of sample_host sample_renderer 500 "()" sample_host 1000]
  by (simp add: sample_renderer_fields sample_host_fields clamp_def)

end
